theory Spec2Isabelle
  imports Main
begin

section \<open>Python values, exceptions and the observable effects\<close>

text \<open>
  The script \<^verbatim>\<open>examples/slack_webhook_example.py\<close> handles values that come out of
  JSON documents.  A Python \<^verbatim>\<open>dict\<close> is kept as the list of its entries in insertion
  order; \<^verbatim>\<open>None\<close> is \<open>JNull\<close>.  JSON numbers are restricted to integers.
\<close>

datatype json =
    JNull
  | JBool bool
  | JInt int
  | JStr string
  | JArr "json list"
  | JObj "(string \<times> json) list"

type_synonym pydict = "(string \<times> json) list"

text \<open>
  The exception classes the script can meet.  \<open>SlackApiError msg code\<close> carries the text
  of \<^verbatim>\<open>str(e)\<close> and the value of \<^verbatim>\<open>e.response['error']\<close>; \<open>RequestException\<close> stands for
  \<^verbatim>\<open>requests.exceptions.RequestException\<close> and its subclasses (connection errors,
  \<^verbatim>\<open>HTTPError\<close>); \<open>OtherException\<close> is any other subclass of \<^verbatim>\<open>Exception\<close>.
\<close>

datatype exn =
    SlackApiError string string
  | RequestException string
  | KeyError string
  | TypeError string
  | AttributeError string
  | OtherException string

text \<open>\<^verbatim>\<open>str(e)\<close>; for a \<^verbatim>\<open>KeyError\<close> it is the key between single quotes.\<close>

fun str_exn :: "exn \<Rightarrow> string" where
  "str_exn (SlackApiError m code) = m"
| "str_exn (RequestException m) = m"
| "str_exn (KeyError k) = [CHR 0x27] @ k @ [CHR 0x27]"
| "str_exn (TypeError m) = m"
| "str_exn (AttributeError m) = m"
| "str_exn (OtherException m) = m"

text \<open>The two emoji of the script's messages, as their UTF-8 bytes.\<close>

definition check_mark :: string where
  "check_mark = [CHR 0xE2, CHR 0x9C, CHR 0x85]"

definition cross_mark :: string where
  "cross_mark = [CHR 0xE2, CHR 0x9D, CHR 0x8C]"

text \<open>
  Every call that leaves the process is recorded: the Slack read
  (\<^verbatim>\<open>conversations_replies(channel, ts, inclusive)\<close>), the HTTP write
  (\<^verbatim>\<open>requests.post(endpoint, json, timeout)\<close>) and the Slack write
  (\<^verbatim>\<open>chat_postMessage(channel, thread_ts, text)\<close>).  Lines printed to standard output are
  kept apart.
\<close>

datatype call =
    ConversationsReplies json json bool
  | RequestsPost string json nat
  | ChatPostMessage json json string

record io =
  calls :: "call list"
  stdout :: "string list"

definition do_call :: "call \<Rightarrow> io \<Rightarrow> io" where
  "do_call c st = st\<lparr>calls := calls st @ [c]\<rparr>"

definition do_print :: "string \<Rightarrow> io \<Rightarrow> io" where
  "do_print s st = st\<lparr>stdout := stdout st @ [s]\<rparr>"

fun is_fetch :: "call \<Rightarrow> bool" where
  "is_fetch (ConversationsReplies c t i) = True"
| "is_fetch _ = False"

fun is_forward :: "call \<Rightarrow> bool" where
  "is_forward (RequestsPost e p t) = True"
| "is_forward _ = False"

fun is_confirmation :: "call \<Rightarrow> bool" where
  "is_confirmation (ChatPostMessage c t x) = True"
| "is_confirmation _ = False"

text \<open>
  What \<^verbatim>\<open>requests.post\<close> hands back: the status code, the text \<^verbatim>\<open>raise_for_status\<close> would
  put into its \<^verbatim>\<open>HTTPError\<close>, and what \<^verbatim>\<open>response.json()\<close> gives (it raises on a body that
  is not JSON).
\<close>

record http_response =
  status_code :: nat
  http_error_msg :: string
  json_body :: "exn + json"

text \<open>
  The collaborators outside the script.  \<open>conversations_replies\<close> answers with
  \<^verbatim>\<open>result["messages"]\<close> or raises; \<open>json_loads\<close> is the standard library's parser and
  \<open>py_str\<close> the built-in \<^verbatim>\<open>str\<close> used by the f-strings.
\<close>

record env =
  conversations_replies :: "json \<Rightarrow> json \<Rightarrow> exn + json list"
  chat_postMessage :: "json \<Rightarrow> json \<Rightarrow> string \<Rightarrow> exn + unit"
  requests_post :: "string \<Rightarrow> json \<Rightarrow> nat \<Rightarrow> exn + http_response"
  json_loads :: "string \<Rightarrow> exn + json"
  py_str :: "json \<Rightarrow> string"

section \<open>Python operators on these values\<close>

text \<open>Truthiness, as \<^verbatim>\<open>or\<close>, \<^verbatim>\<open>not\<close> and \<^verbatim>\<open>if\<close> read it.\<close>

fun truthy :: "json \<Rightarrow> bool" where
  "truthy JNull = False"
| "truthy (JBool b) = b"
| "truthy (JInt n) = (n \<noteq> 0)"
| "truthy (JStr s) = (s \<noteq> [])"
| "truthy (JArr xs) = (xs \<noteq> [])"
| "truthy (JObj d) = (d \<noteq> [])"

definition py_or :: "json \<Rightarrow> json \<Rightarrow> json" where
  "py_or a b = (if truthy a then a else b)"

text \<open>\<^verbatim>\<open>x.get(k, default)\<close>: only a dict has the method.\<close>

fun dict_get :: "json \<Rightarrow> string \<Rightarrow> json \<Rightarrow> exn + json" where
  "dict_get (JObj d) k dflt = Inr (case map_of d k of None \<Rightarrow> dflt | Some v \<Rightarrow> v)"
| "dict_get _ k dflt = Inl (AttributeError ''get'')"

text \<open>\<^verbatim>\<open>x[k]\<close> with a string key.\<close>

fun py_getitem :: "json \<Rightarrow> string \<Rightarrow> exn + json" where
  "py_getitem (JObj d) k = (case map_of d k of None \<Rightarrow> Inl (KeyError k) | Some v \<Rightarrow> Inr v)"
| "py_getitem (JArr xs) k = Inl (TypeError ''list indices must be integers or slices, not str'')"
| "py_getitem (JStr s) k = Inl (TypeError ''string indices must be integers'')"
| "py_getitem _ k = Inl (TypeError ''object is not subscriptable'')"

fun is_prefix :: "string \<Rightarrow> string \<Rightarrow> bool" where
  "is_prefix [] s = True"
| "is_prefix (p # ps) [] = False"
| "is_prefix (p # ps) (c # cs) = (p = c \<and> is_prefix ps cs)"

text \<open>\<^verbatim>\<open>sub in s\<close> on two strings.\<close>

fun str_contains :: "string \<Rightarrow> string \<Rightarrow> bool" where
  "str_contains [] sub = (sub = [])"
| "str_contains (c # cs) sub = (is_prefix sub (c # cs) \<or> str_contains cs sub)"

text \<open>\<^verbatim>\<open>k in x\<close> with a string on the left.\<close>

fun py_in :: "string \<Rightarrow> json \<Rightarrow> exn + bool" where
  "py_in k (JObj d) = Inr (map_of d k \<noteq> None)"
| "py_in k (JArr xs) = Inr (JStr k \<in> set xs)"
| "py_in k (JStr s) = Inr (str_contains s k)"
| "py_in k _ = Inl (TypeError ''argument is not iterable'')"

text \<open>\<^verbatim>\<open>len(x)\<close>.\<close>

fun py_len :: "json \<Rightarrow> exn + nat" where
  "py_len (JArr xs) = Inr (length xs)"
| "py_len (JStr s) = Inr (length s)"
| "py_len (JObj d) = Inr (length d)"
| "py_len _ = Inl (TypeError ''object has no len()'')"

text \<open>\<^verbatim>\<open>str.lower\<close>, on the ASCII letters (strings are byte lists here).\<close>

definition lower_char :: "char \<Rightarrow> char" where
  "lower_char c =
     (case map_of (zip ''ABCDEFGHIJKLMNOPQRSTUVWXYZ'' ''abcdefghijklmnopqrstuvwxyz'') c of
        None \<Rightarrow> c
      | Some l \<Rightarrow> l)"

fun py_lower :: "json \<Rightarrow> exn + string" where
  "py_lower (JStr s) = Inr (map lower_char s)"
| "py_lower _ = Inl (AttributeError ''lower'')"

text \<open>\<^verbatim>\<open>s.rstrip(chars)\<close>: drop the trailing characters that occur in \<open>chars\<close>.\<close>

definition rstrip :: "string \<Rightarrow> string \<Rightarrow> string" where
  "rstrip chars s = rev (dropWhile (\<lambda>c. c \<in> set chars) (rev s))"

text \<open>
  \<^verbatim>\<open>d[k] = v\<close> and \<^verbatim>\<open>{**d, **e}\<close>: a key already present keeps its place and takes the new
  value, a new key goes to the end.
\<close>

fun dict_set :: "pydict \<Rightarrow> string \<Rightarrow> json \<Rightarrow> pydict" where
  "dict_set [] k v = [(k, v)]"
| "dict_set ((k', v') # d) k v = (if k' = k then (k, v) # d else (k', v') # dict_set d k v)"

fun dict_update :: "pydict \<Rightarrow> pydict \<Rightarrow> pydict" where
  "dict_update d [] = d"
| "dict_update d ((k, v) # e) = dict_update (dict_set d k v) e"

section \<open>The integrator\<close>

text \<open>
  \<^verbatim>\<open>class SlackToKnowledgeAgent\<close>.  The Slack client built from the token is the pair of
  Slack functions of \<open>env\<close>.
\<close>

record integrator =
  slack_token :: string
  knowledge_agent_url :: string

definition init :: "string \<Rightarrow> string \<Rightarrow> integrator" where
  "init token url = \<lparr>slack_token = token, knowledge_agent_url = rstrip ''/'' url\<rparr>"

text \<open>The \<^verbatim>\<open>except SlackApiError as e: print(f"...{e.response['error']}")\<close> clauses.\<close>

fun on_slack_error :: "string \<Rightarrow> exn \<Rightarrow> io \<Rightarrow> io" where
  "on_slack_error label (SlackApiError m code) st = do_print (label @ code) st"
| "on_slack_error label _ st = st"

text \<open>The \<^verbatim>\<open>except requests.exceptions.RequestException as e: print(f"...{e}")\<close> clause.\<close>

fun on_request_error :: "string \<Rightarrow> exn \<Rightarrow> io \<Rightarrow> io" where
  "on_request_error label (RequestException m) st = do_print (label @ m) st"
| "on_request_error label _ st = st"

subsection \<open>\<^verbatim>\<open>fetch_thread\<close>\<close>

text \<open>The dict built for one raw message in the body of the loop.\<close>

definition message_of :: "json \<Rightarrow> exn + json" where
  "message_of msg =
     (case dict_get msg ''user'' (JStr ''unknown'') of Inl e \<Rightarrow> Inl e | Inr u \<Rightarrow>
      (case dict_get msg ''text'' (JStr []) of Inl e \<Rightarrow> Inl e | Inr t \<Rightarrow>
       (case dict_get msg ''ts'' (JStr []) of Inl e \<Rightarrow> Inl e | Inr s \<Rightarrow>
        (case dict_get msg ''type'' (JStr ''message'') of Inl e \<Rightarrow> Inl e | Inr ty \<Rightarrow>
           Inr (JObj [(''user'', u), (''text'', t), (''ts'', s), (''type'', ty)])))))"

text \<open>\<^verbatim>\<open>for msg in result["messages"]: messages.append({...})\<close>, with the list built so far.\<close>

fun messages_loop :: "json list \<Rightarrow> json list \<Rightarrow> exn + json list" where
  "messages_loop messages [] = Inr messages"
| "messages_loop messages (msg # rest) =
     (case message_of msg of
        Inl e \<Rightarrow> Inl e
      | Inr m \<Rightarrow> messages_loop (messages @ [m]) rest)"

definition fetch_thread ::
  "env \<Rightarrow> integrator \<Rightarrow> json \<Rightarrow> json \<Rightarrow> io \<Rightarrow> (exn + pydict) \<times> io" where
  "fetch_thread w self channel_id thread_ts st =
     (let st1 = do_call (ConversationsReplies channel_id thread_ts True) st in
      case conversations_replies w channel_id thread_ts of
        Inl e \<Rightarrow> (Inl e, on_slack_error ''Error fetching thread: '' e st1)
      | Inr raw \<Rightarrow>
          (case messages_loop [] raw of
             Inl e \<Rightarrow> (Inl e, on_slack_error ''Error fetching thread: '' e st1)
           | Inr messages \<Rightarrow>
               (Inr [(''thread_ts'', thread_ts),
                     (''channel_id'', channel_id),
                     (''messages'', JArr messages)], st1)))"

subsection \<open>\<^verbatim>\<open>send_to_knowledge_agent\<close>\<close>

text \<open>\<^verbatim>\<open>endpoint = f"{self.knowledge_agent_url}/api/query"\<close>\<close>

definition endpoint :: "integrator \<Rightarrow> string" where
  "endpoint self = knowledge_agent_url self @ ''/api/query''"

text \<open>
  \<^verbatim>\<open>response.raise_for_status()\<close> of the requests library: an \<^verbatim>\<open>HTTPError\<close> (a
  \<^verbatim>\<open>RequestException\<close>) for a client or server error status, 400 to 599, and nothing for
  any other status.
\<close>

definition raise_for_status :: "http_response \<Rightarrow> exn + unit" where
  "raise_for_status r =
     (if 400 \<le> status_code r \<and> status_code r < 600
      then Inl (RequestException (http_error_msg r)) else Inr ())"

text \<open>\<^verbatim>\<open>{"question": ..., "intent": "ingest", **thread_data}\<close>\<close>

definition payload_of :: "pydict \<Rightarrow> pydict" where
  "payload_of thread_data =
     dict_update [(''question'', JStr ''Ingest this thread''), (''intent'', JStr ''ingest'')]
       thread_data"

definition send_to_knowledge_agent ::
  "env \<Rightarrow> integrator \<Rightarrow> pydict \<Rightarrow> io \<Rightarrow> (exn + json) \<times> io" where
  "send_to_knowledge_agent w self thread_data st =
     (let payload = JObj (payload_of thread_data);
          st1 = do_call (RequestsPost (endpoint self) payload 30) st in
      case requests_post w (endpoint self) payload 30 of
        Inl e \<Rightarrow> (Inl e, on_request_error ''Error sending to Knowledge Agent: '' e st1)
      | Inr response \<Rightarrow>
          (case raise_for_status response of
             Inl e \<Rightarrow> (Inl e, on_request_error ''Error sending to Knowledge Agent: '' e st1)
           | Inr u \<Rightarrow>
               (case json_body response of
                  Inl e \<Rightarrow> (Inl e, on_request_error ''Error sending to Knowledge Agent: '' e st1)
                | Inr body \<Rightarrow> (Inr body, st1))))"

subsection \<open>\<^verbatim>\<open>ingest_thread\<close>\<close>

definition ingest_thread ::
  "env \<Rightarrow> integrator \<Rightarrow> json \<Rightarrow> json \<Rightarrow> io \<Rightarrow> (exn + json) \<times> io" where
  "ingest_thread w self channel_id thread_ts st =
     (let st1 = do_print (''Fetching thread '' @ py_str w thread_ts @ '' from channel ''
                           @ py_str w channel_id @ ''...'') st in
      case fetch_thread w self channel_id thread_ts st1 of
        (Inl e, st2) \<Rightarrow> (Inl e, st2)
      | (Inr thread_data, st2) \<Rightarrow>
          (case py_getitem (JObj thread_data) ''messages'' of
             Inl e \<Rightarrow> (Inl e, st2)
           | Inr ms \<Rightarrow>
               (case py_len ms of
                  Inl e \<Rightarrow> (Inl e, st2)
                | Inr n \<Rightarrow>
                    (let st3 = do_print (''Sending '' @ py_str w (JInt (int n))
                                          @ '' messages to Knowledge Agent...'') st2 in
                     case send_to_knowledge_agent w self thread_data st3 of
                       (Inl e, st4) \<Rightarrow> (Inl e, st4)
                     | (Inr result, st4) \<Rightarrow>
                         (case dict_get result ''memories_added'' (JInt 0) of
                            Inl e \<Rightarrow> (Inl e, st4)
                          | Inr m \<Rightarrow>
                              (Inr result,
                               do_print (check_mark @ '' Success! '' @ py_str w m
                                         @ '' memories created'') st4))))))"

subsection \<open>\<^verbatim>\<open>post_confirmation\<close>\<close>

definition post_confirmation ::
  "env \<Rightarrow> integrator \<Rightarrow> json \<Rightarrow> json \<Rightarrow> json \<Rightarrow> io \<Rightarrow> (exn + unit) \<times> io" where
  "post_confirmation w self channel_id thread_ts memories_count st =
     (let text = check_mark @ '' Thread ingested to knowledge base! Created ''
                 @ py_str w memories_count @ '' memories.'';
          st1 = do_call (ChatPostMessage channel_id thread_ts text) st in
      case chat_postMessage w channel_id thread_ts text of
        Inr u \<Rightarrow> (Inr (), st1)
      | Inl (SlackApiError m code) \<Rightarrow>
          (Inr (), do_print (''Error posting confirmation: '' @ code) st1)
      | Inl e \<Rightarrow> (Inl e, st1))"

section \<open>The webhook handlers\<close>

text \<open>
  A handler returns the JSON body and the HTTP status of its response, or the exception
  it lets escape to the framework.
\<close>

type_synonym response = "json \<times> nat"

definition status_ok :: "io \<Rightarrow> (exn + response) \<times> io" where
  "status_ok st = (Inr (JObj [(''status'', JStr ''ok'')], 200), st)"

subsection \<open>\<^verbatim>\<open>slack_events\<close>\<close>

text \<open>
  The body of \<^verbatim>\<open>if "ingest" in text or "save" in text:\<close>, that is the \<^verbatim>\<open>try\<close> block with its
  \<^verbatim>\<open>except Exception\<close>, followed by the final \<^verbatim>\<open>return\<close>.
\<close>

definition events_try ::
  "env \<Rightarrow> integrator \<Rightarrow> json \<Rightarrow> json \<Rightarrow> io \<Rightarrow> (exn + response) \<times> io" where
  "events_try w self channel_id thread_ts st =
     (case ingest_thread w self channel_id thread_ts st of
        (Inl e, st1) \<Rightarrow> status_ok (do_print (''Error processing thread: '' @ str_exn e) st1)
      | (Inr result, st1) \<Rightarrow>
          (case dict_get result ''memories_added'' (JInt 0) of
             Inl e \<Rightarrow> status_ok (do_print (''Error processing thread: '' @ str_exn e) st1)
           | Inr m \<Rightarrow>
               (case post_confirmation w self channel_id thread_ts m st1 of
                  (Inl e, st2) \<Rightarrow>
                    status_ok (do_print (''Error processing thread: '' @ str_exn e) st2)
                | (Inr u, st2) \<Rightarrow> status_ok st2)))"

text \<open>The body of \<^verbatim>\<open>if "event" in data:\<close>, followed by the final \<^verbatim>\<open>return\<close>.\<close>

definition events_event ::
  "env \<Rightarrow> integrator \<Rightarrow> json \<Rightarrow> io \<Rightarrow> (exn + response) \<times> io" where
  "events_event w self event st =
     (case dict_get event ''type'' JNull of Inl e \<Rightarrow> (Inl e, st) | Inr ty \<Rightarrow>
      if ty = JStr ''app_mention'' then
        (case dict_get event ''channel'' JNull of Inl e \<Rightarrow> (Inl e, st) | Inr channel_id \<Rightarrow>
         (case dict_get event ''thread_ts'' JNull of Inl e \<Rightarrow> (Inl e, st) | Inr a \<Rightarrow>
          (case dict_get event ''ts'' JNull of Inl e \<Rightarrow> (Inl e, st) | Inr b \<Rightarrow>
           (case dict_get event ''text'' (JStr []) of Inl e \<Rightarrow> (Inl e, st) | Inr t \<Rightarrow>
            (case py_lower t of Inl e \<Rightarrow> (Inl e, st) | Inr text \<Rightarrow>
               if str_contains text ''ingest'' \<or> str_contains text ''save''
               then events_try w self channel_id (py_or a b) st
               else status_ok st)))))
      else status_ok st)"

definition slack_events ::
  "env \<Rightarrow> integrator \<Rightarrow> json \<Rightarrow> io \<Rightarrow> (exn + response) \<times> io" where
  "slack_events w self data st =
     (case py_in ''challenge'' data of Inl e \<Rightarrow> (Inl e, st) | Inr has_challenge \<Rightarrow>
      if has_challenge then
        (case py_getitem data ''challenge'' of
           Inl e \<Rightarrow> (Inl e, st)
         | Inr c \<Rightarrow> (Inr (JObj [(''challenge'', c)], 200), st))
      else
        (case py_in ''event'' data of Inl e \<Rightarrow> (Inl e, st) | Inr has_event \<Rightarrow>
         if has_event then
           (case py_getitem data ''event'' of
              Inl e \<Rightarrow> (Inl e, st)
            | Inr event \<Rightarrow> events_event w self event st)
         else status_ok st))"

subsection \<open>\<^verbatim>\<open>slack_shortcuts\<close>\<close>

text \<open>The \<^verbatim>\<open>try\<close> block of the shortcut branch with its \<^verbatim>\<open>except Exception\<close>.\<close>

definition shortcuts_try ::
  "env \<Rightarrow> integrator \<Rightarrow> json \<Rightarrow> json \<Rightarrow> io \<Rightarrow> (exn + response) \<times> io" where
  "shortcuts_try w self channel_id thread_ts st =
     (case ingest_thread w self channel_id thread_ts st of
        (Inl e, st1) \<Rightarrow>
          (Inr (JObj [(''text'', JStr (cross_mark @ '' Error: '' @ str_exn e))], 500), st1)
      | (Inr result, st1) \<Rightarrow>
          (case dict_get result ''memories_added'' (JInt 0) of
             Inl e \<Rightarrow>
               (Inr (JObj [(''text'', JStr (cross_mark @ '' Error: '' @ str_exn e))], 500), st1)
           | Inr m \<Rightarrow>
               (Inr (JObj [(''text'', JStr (check_mark @ '' Thread saved! Created ''
                                            @ py_str w m @ '' memories.''))], 200), st1)))"

text \<open>The body of \<^verbatim>\<open>if data.get("type") == "shortcut":\<close>.\<close>

definition shortcuts_shortcut ::
  "env \<Rightarrow> integrator \<Rightarrow> json \<Rightarrow> io \<Rightarrow> (exn + response) \<times> io" where
  "shortcuts_shortcut w self data st =
     (case dict_get data ''message'' (JObj []) of Inl e \<Rightarrow> (Inl e, st) | Inr message \<Rightarrow>
      (case py_getitem data ''channel'' of Inl e \<Rightarrow> (Inl e, st) | Inr channel \<Rightarrow>
       (case py_getitem channel ''id'' of Inl e \<Rightarrow> (Inl e, st) | Inr channel_id \<Rightarrow>
        (case dict_get message ''thread_ts'' JNull of Inl e \<Rightarrow> (Inl e, st) | Inr a \<Rightarrow>
         (case dict_get message ''ts'' JNull of Inl e \<Rightarrow> (Inl e, st) | Inr b \<Rightarrow>
            shortcuts_try w self channel_id (py_or a b) st)))))"

text \<open>
  The argument is \<^verbatim>\<open>request.form.get("payload")\<close>: \<open>None\<close> when the form has no such field.
\<close>

definition slack_shortcuts ::
  "env \<Rightarrow> integrator \<Rightarrow> string option \<Rightarrow> io \<Rightarrow> (exn + response) \<times> io" where
  "slack_shortcuts w self payload st =
     (case payload of
        None \<Rightarrow> (Inr (JObj [(''error'', JStr ''No payload'')], 400), st)
      | Some p \<Rightarrow>
          if p = [] then (Inr (JObj [(''error'', JStr ''No payload'')], 400), st)
          else
            (case json_loads w p of Inl e \<Rightarrow> (Inl e, st) | Inr data \<Rightarrow>
             (case dict_get data ''type'' JNull of Inl e \<Rightarrow> (Inl e, st) | Inr ty \<Rightarrow>
              if ty = JStr ''shortcut'' then shortcuts_shortcut w self data st
              else status_ok st)))"

section \<open>Concrete requests and environments\<close>

text \<open>
  Sample data on which the properties below are instantiated: an integrator configured
  with a base URL that ends in a slash, an empty effect log, a thread of two raw
  messages (the second without \<^verbatim>\<open>user\<close>, \<^verbatim>\<open>ts\<close> and \<^verbatim>\<open>type\<close>), and environments in which
  each collaborator either answers or fails.
\<close>

definition sample_self :: integrator where
  "sample_self = init ''xoxb-token'' ''http://localhost:8081/''"

definition io0 :: io where
  "io0 = \<lparr>calls = [], stdout = []\<rparr>"

definition sample_raw :: "json list" where
  "sample_raw =
     [JObj [(''user'', JStr ''U1''), (''text'', JStr ''root''), (''ts'', JStr ''1.0''),
            (''type'', JStr ''message''), (''reply_count'', JInt 1)],
      JObj [(''text'', JStr ''reply'')]]"

definition sample_thread :: pydict where
  "sample_thread =
     [(''thread_ts'', JStr ''1.0''), (''channel_id'', JStr ''C1''),
      (''messages'', JArr [JObj [(''user'', JStr ''U1''), (''text'', JStr ''root''),
                                 (''ts'', JStr ''1.0''), (''type'', JStr ''message'')]])]"

text \<open>A stand-in for \<^verbatim>\<open>str\<close>: exact on strings and \<^verbatim>\<open>None\<close>, a placeholder elsewhere.\<close>

fun sample_str :: "json \<Rightarrow> string" where
  "sample_str (JStr s) = s"
| "sample_str JNull = ''None''"
| "sample_str _ = ''?''"

definition shortcut_text :: string where
  "shortcut_text =
     ''{\"type\": \"shortcut\", \"channel\": {\"id\": \"C1\"}, \"message\": {\"ts\": \"1.0\"}}''"

definition shortcut_no_channel_text :: string where
  "shortcut_no_channel_text = ''{\"type\": \"shortcut\", \"message\": {\"ts\": \"1.0\"}}''"

definition shortcut_no_id_text :: string where
  "shortcut_no_id_text =
     ''{\"type\": \"shortcut\", \"channel\": {}, \"message\": {\"ts\": \"1.0\"}}''"

definition block_actions_text :: string where
  "block_actions_text = ''{\"type\": \"block_actions\"}''"

text \<open>The parser, on the four documents above.\<close>

definition sample_loads :: "string \<Rightarrow> exn + json" where
  "sample_loads s =
     (if s = shortcut_text then
        Inr (JObj [(''type'', JStr ''shortcut''),
                   (''channel'', JObj [(''id'', JStr ''C1'')]),
                   (''message'', JObj [(''ts'', JStr ''1.0'')])])
      else if s = shortcut_no_channel_text then
        Inr (JObj [(''type'', JStr ''shortcut''), (''message'', JObj [(''ts'', JStr ''1.0'')])])
      else if s = block_actions_text then
        Inr (JObj [(''type'', JStr ''block_actions'')])
      else if s = shortcut_no_id_text then
        Inr (JObj [(''type'', JStr ''shortcut''), (''channel'', JObj []),
                   (''message'', JObj [(''ts'', JStr ''1.0'')])])
      else Inl (OtherException ''JSONDecodeError''))"

definition env_ok :: env where
  "env_ok =
     \<lparr>conversations_replies = (\<lambda>channel ts. Inr sample_raw),
      chat_postMessage = (\<lambda>channel ts text. Inr ()),
      requests_post = (\<lambda>url body timeout.
         Inr \<lparr>status_code = 200, http_error_msg = [],
              json_body = Inr (JObj [(''memories_added'', JInt 2)])\<rparr>),
      json_loads = sample_loads,
      py_str = sample_str\<rparr>"

text \<open>Slack refuses the read.\<close>

definition env_slack_error :: env where
  "env_slack_error =
     env_ok\<lparr>conversations_replies :=
       (\<lambda>channel ts. Inl (SlackApiError ''The request to the Slack API failed.''
                                          ''channel_not_found''))\<rparr>"

text \<open>The Knowledge Agent cannot be reached.\<close>

definition env_agent_down :: env where
  "env_agent_down =
     env_ok\<lparr>requests_post := (\<lambda>url body timeout. Inl (RequestException ''Connection refused''))\<rparr>"

text \<open>The Knowledge Agent answers 304 with an empty JSON object.\<close>

definition not_modified :: http_response where
  "not_modified = \<lparr>status_code = 304, http_error_msg = [], json_body = Inr (JObj [])\<rparr>"

definition env_not_modified :: env where
  "env_not_modified = env_ok\<lparr>requests_post := (\<lambda>url body timeout. Inr not_modified)\<rparr>"

text \<open>Slack refuses the write with an API error; the write fails below the API.\<close>

definition env_chat_api_error :: env where
  "env_chat_api_error =
     env_ok\<lparr>chat_postMessage :=
       (\<lambda>channel ts text. Inl (SlackApiError ''The request to the Slack API failed.''
                                               ''not_in_channel''))\<rparr>"

definition env_chat_unreachable :: env where
  "env_chat_unreachable =
     env_ok\<lparr>chat_postMessage :=
       (\<lambda>channel ts text. Inl (OtherException ''urlopen error: connection refused''))\<rparr>"

text \<open>An \<^verbatim>\<open>app_mention\<close> event asking for ingestion, alone and next to a challenge.\<close>

definition mention_event :: pydict where
  "mention_event =
     [(''type'', JStr ''app_mention''), (''channel'', JStr ''C1''), (''ts'', JStr ''1.0''),
      (''text'', JStr ''Please INGEST this'')]"

definition mention_body :: json where
  "mention_body = JObj [(''event'', JObj mention_event)]"

definition challenge_body :: json where
  "challenge_body = JObj [(''challenge'', JStr ''X''), (''event'', JObj mention_event)]"

section \<open>Properties\<close>

subsection \<open>Trailing slashes of the base URL\<close>

lemma rstrip_replicate: "rstrip [c] (b @ replicate n c) = rstrip [c] b"
proof -
  have "dropWhile (\<lambda>x. x = c) (replicate n c @ rev b) = dropWhile (\<lambda>x. x = c) (rev b)"
    by (rule dropWhile_append2) simp
  then show ?thesis by (simp add: rstrip_def)
qed

lemma takeWhile_eq_replicate:
  "takeWhile (\<lambda>x. x = c) xs = replicate (length (takeWhile (\<lambda>x. x = c) xs)) c"
  by (induction xs) auto

lemma rstrip_decompose: "\<exists>k. s = rstrip [c] s @ replicate k c"
proof -
  let ?P = "\<lambda>x. x = c"
  have "rev s = takeWhile ?P (rev s) @ dropWhile ?P (rev s)" by simp
  then have "s = rev (dropWhile ?P (rev s)) @ rev (takeWhile ?P (rev s))"
    by (metis rev_append rev_rev_ident)
  moreover have "rev (takeWhile ?P (rev s)) = replicate (length (takeWhile ?P (rev s))) c"
    using takeWhile_eq_replicate [of c "rev s"] by (metis rev_replicate)
  ultimately have "s = rstrip [c] s @ replicate (length (takeWhile ?P (rev s))) c"
    by (simp add: rstrip_def)
  then show ?thesis ..
qed

lemma rstrip_no_trailing: "rstrip [c] s \<noteq> t @ [c]"
proof
  assume a: "rstrip [c] s = t @ [c]"
  let ?d = "dropWhile (\<lambda>x. x = c) (rev s)"
  from a have "rev ?d = t @ [c]" by (simp add: rstrip_def)
  then have "rev (rev ?d) = rev (t @ [c])" by simp
  then have d: "?d = c # rev t" by simp
  then have "?d \<noteq> []" by simp
  then have "hd ?d \<noteq> c" by (rule hd_dropWhile)
  with d show False by simp
qed

text \<open>
  C10.  The constructor strips every trailing \<open>/\<close> of the base URL: the stored URL is the
  given one without a final run of slashes and does not end in a slash.  The endpoint of
  the forwarder is the stripped base followed by \<open>/api/query\<close>, so two base URLs that
  differ only in the number of trailing slashes give the same endpoint.
\<close>

theorem endpoint_strips_trailing_slashes:
  "endpoint (init token (base @ replicate n (CHR ''/''))) = rstrip ''/'' base @ ''/api/query''
   \<and> endpoint (init token (base @ replicate n (CHR ''/'')))
       = endpoint (init token (base @ replicate m (CHR ''/'')))
   \<and> (\<exists>k. url = knowledge_agent_url (init token url) @ replicate k (CHR ''/''))
   \<and> (\<forall>t. knowledge_agent_url (init token url) \<noteq> t @ ''/'')"
  using rstrip_decompose [of url "CHR ''/''"] rstrip_no_trailing [of "CHR ''/''" url]
  by (simp add: endpoint_def init_def rstrip_replicate)

theorem endpoint_strips_trailing_slashes_witness:
  "endpoint (init ''xoxb-token'' (''http://localhost:8081'' @ replicate 2 (CHR ''/'')))
     = ''http://localhost:8081/api/query''
   \<and> endpoint (init ''xoxb-token'' (''http://localhost:8081'' @ replicate 2 (CHR ''/'')))
     = endpoint (init ''xoxb-token'' (''http://localhost:8081'' @ replicate 0 (CHR ''/'')))"
proof -
  have r: "rstrip ''/'' ''http://localhost:8081'' = ''http://localhost:8081''"
    by (simp add: rstrip_def)
  from endpoint_strips_trailing_slashes
      [of "''xoxb-token''" "''http://localhost:8081''" 2 0 "''http://localhost:8081''"]
  have a: "endpoint (init ''xoxb-token'' (''http://localhost:8081'' @ replicate 2 (CHR ''/'')))
             = rstrip ''/'' ''http://localhost:8081'' @ ''/api/query''"
    and b: "endpoint (init ''xoxb-token'' (''http://localhost:8081'' @ replicate 2 (CHR ''/'')))
     = endpoint (init ''xoxb-token'' (''http://localhost:8081'' @ replicate 0 (CHR ''/'')))"
    by blast+
  from a have "endpoint (init ''xoxb-token'' (''http://localhost:8081'' @ replicate 2 (CHR ''/'')))
     = ''http://localhost:8081/api/query''"
    unfolding r by simp
  with b show ?thesis by (rule conjI [rotated])
qed

subsection \<open>The effect log\<close>

lemma calls_do_print: "calls (do_print s st) = calls st"
  by (simp add: do_print_def)

lemma calls_do_call: "calls (do_call c st) = calls st @ [c]"
  by (simp add: do_call_def)

lemma calls_on_slack_error: "calls (on_slack_error label e st) = calls st"
  by (cases e) (simp_all add: calls_do_print)

lemma calls_on_request_error: "calls (on_request_error label e st) = calls st"
  by (cases e) (simp_all add: calls_do_print)

subsection \<open>Fetching a thread\<close>

lemma message_of_obj:
  "message_of (JObj d) =
     Inr (JObj [(''user'', case map_of d ''user'' of None \<Rightarrow> JStr ''unknown'' | Some v \<Rightarrow> v),
                (''text'', case map_of d ''text'' of None \<Rightarrow> JStr [] | Some v \<Rightarrow> v),
                (''ts'', case map_of d ''ts'' of None \<Rightarrow> JStr [] | Some v \<Rightarrow> v),
                (''type'', case map_of d ''type'' of None \<Rightarrow> JStr ''message'' | Some v \<Rightarrow> v)])"
  by (simp add: message_of_def)

lemma messages_loop_objs:
  "\<forall>m\<in>set raw. \<exists>d. m = JObj d \<Longrightarrow>
   messages_loop acc raw = Inr (acc @ map (\<lambda>m. projr (message_of m)) raw)"
proof (induction raw arbitrary: acc)
  case Nil
  show ?case by simp
next
  case (Cons msg rest)
  then obtain d where d: "msg = JObj d" by auto
  from Cons.prems have "\<forall>m\<in>set rest. \<exists>d. m = JObj d" by simp
  then have "messages_loop (acc @ [projr (message_of msg)]) rest
               = Inr ((acc @ [projr (message_of msg)]) @ map (\<lambda>m. projr (message_of m)) rest)"
    by (rule Cons.IH)
  then show ?case by (simp add: d message_of_obj)
qed

lemma fetch_thread_objs:
  assumes "conversations_replies w channel_id thread_ts = Inr raw"
    and "\<forall>m\<in>set raw. \<exists>d. m = JObj d"
  shows "fetch_thread w self channel_id thread_ts st =
           (Inr [(''thread_ts'', thread_ts), (''channel_id'', channel_id),
                 (''messages'', JArr (map (\<lambda>m. projr (message_of m)) raw))],
            do_call (ConversationsReplies channel_id thread_ts True) st)"
  using assms by (simp add: fetch_thread_def messages_loop_objs)

text \<open>
  C1.  When the platform API returns a list of raw messages (JSON objects), \<^verbatim>\<open>fetch_thread\<close>
  returns a thread whose \<^verbatim>\<open>messages\<close> list has the length and the order of that list: its
  element at each position is built from the raw message at that position, with
  \<^verbatim>\<open>user\<close>, \<^verbatim>\<open>text\<close>, \<^verbatim>\<open>ts\<close> and \<^verbatim>\<open>type\<close> taken from it and defaulted to \<^verbatim>\<open>"unknown"\<close>, \<^verbatim>\<open>""\<close>,
  \<^verbatim>\<open>""\<close> and \<^verbatim>\<open>"message"\<close> where the raw message has no such field.
\<close>

theorem fetch_thread_messages:
  assumes "conversations_replies w channel_id thread_ts = Inr raw"
    and "\<forall>m\<in>set raw. \<exists>d. m = JObj d"
  shows "\<exists>ms. fetch_thread w self channel_id thread_ts st =
                 (Inr [(''thread_ts'', thread_ts), (''channel_id'', channel_id),
                       (''messages'', JArr ms)],
                  do_call (ConversationsReplies channel_id thread_ts True) st)
             \<and> length ms = length raw
             \<and> (\<forall>i<length raw. \<forall>d. raw ! i = JObj d \<longrightarrow>
                  ms ! i =
                    JObj [(''user'', case map_of d ''user'' of None \<Rightarrow> JStr ''unknown'' | Some v \<Rightarrow> v),
                          (''text'', case map_of d ''text'' of None \<Rightarrow> JStr [] | Some v \<Rightarrow> v),
                          (''ts'', case map_of d ''ts'' of None \<Rightarrow> JStr [] | Some v \<Rightarrow> v),
                          (''type'', case map_of d ''type'' of None \<Rightarrow> JStr ''message'' | Some v \<Rightarrow> v)])"
proof (intro exI conjI)
  show "fetch_thread w self channel_id thread_ts st =
          (Inr [(''thread_ts'', thread_ts), (''channel_id'', channel_id),
                (''messages'', JArr (map (\<lambda>m. projr (message_of m)) raw))],
           do_call (ConversationsReplies channel_id thread_ts True) st)"
    using assms by (rule fetch_thread_objs)
  show "length (map (\<lambda>m. projr (message_of m)) raw) = length raw" by simp
  show "\<forall>i<length raw. \<forall>d. raw ! i = JObj d \<longrightarrow>
          map (\<lambda>m. projr (message_of m)) raw ! i =
            JObj [(''user'', case map_of d ''user'' of None \<Rightarrow> JStr ''unknown'' | Some v \<Rightarrow> v),
                  (''text'', case map_of d ''text'' of None \<Rightarrow> JStr [] | Some v \<Rightarrow> v),
                  (''ts'', case map_of d ''ts'' of None \<Rightarrow> JStr [] | Some v \<Rightarrow> v),
                  (''type'', case map_of d ''type'' of None \<Rightarrow> JStr ''message'' | Some v \<Rightarrow> v)]"
    by (simp add: message_of_obj)
qed

theorem fetch_thread_messages_witness:
  "\<exists>ms. fst (fetch_thread env_ok sample_self (JStr ''C1'') (JStr ''1.0'') io0) =
           Inr [(''thread_ts'', JStr ''1.0''), (''channel_id'', JStr ''C1''), (''messages'', JArr ms)]
       \<and> length ms = 2
       \<and> ms ! 0 = JObj [(''user'', JStr ''U1''), (''text'', JStr ''root''), (''ts'', JStr ''1.0''),
                        (''type'', JStr ''message'')]
       \<and> ms ! 1 = JObj [(''user'', JStr ''unknown''), (''text'', JStr ''reply''), (''ts'', JStr []),
                        (''type'', JStr ''message'')]"
proof -
  have r: "conversations_replies env_ok (JStr ''C1'') (JStr ''1.0'') = Inr sample_raw"
    by (simp add: env_ok_def)
  have o: "\<forall>m\<in>set sample_raw. \<exists>d. m = JObj d"
    by (simp add: sample_raw_def)
  from fetch_thread_messages [OF r o, of sample_self io0]
  obtain ms where f: "fetch_thread env_ok sample_self (JStr ''C1'') (JStr ''1.0'') io0 =
                 (Inr [(''thread_ts'', JStr ''1.0''), (''channel_id'', JStr ''C1''),
                       (''messages'', JArr ms)],
                  do_call (ConversationsReplies (JStr ''C1'') (JStr ''1.0'') True) io0)"
    and l: "length ms = length sample_raw"
    and e: "\<forall>i<length sample_raw. \<forall>d. sample_raw ! i = JObj d \<longrightarrow>
                  ms ! i =
                    JObj [(''user'', case map_of d ''user'' of None \<Rightarrow> JStr ''unknown'' | Some v \<Rightarrow> v),
                          (''text'', case map_of d ''text'' of None \<Rightarrow> JStr [] | Some v \<Rightarrow> v),
                          (''ts'', case map_of d ''ts'' of None \<Rightarrow> JStr [] | Some v \<Rightarrow> v),
                          (''type'', case map_of d ''type'' of None \<Rightarrow> JStr ''message'' | Some v \<Rightarrow> v)]"
    by blast
  from e have e0: "ms ! 0 = JObj [(''user'', JStr ''U1''), (''text'', JStr ''root''), (''ts'', JStr ''1.0''),
                        (''type'', JStr ''message'')]"
    by (simp add: sample_raw_def)
  from e have e1: "ms ! 1 = JObj [(''user'', JStr ''unknown''), (''text'', JStr ''reply''), (''ts'', JStr []),
                        (''type'', JStr ''message'')]"
    by (simp add: sample_raw_def)
  from f l e0 e1 show ?thesis by (simp add: sample_raw_def)
qed

subsection \<open>Forwarding to the Knowledge Agent\<close>

lemma payload_of_thread:
  "payload_of [(''thread_ts'', ts), (''channel_id'', ch), (''messages'', ms)] =
     [(''question'', JStr ''Ingest this thread''), (''intent'', JStr ''ingest''),
      (''thread_ts'', ts), (''channel_id'', ch), (''messages'', ms)]"
  by (simp add: payload_of_def)

lemma send_calls:
  "calls (snd (send_to_knowledge_agent w self td st)) =
     calls st @ [RequestsPost (endpoint self) (JObj (payload_of td)) 30]"
  by (simp add: send_to_knowledge_agent_def Let_def calls_on_request_error calls_do_call
           split: sum.split)

lemma send_result:
  "fst (send_to_knowledge_agent w self td st) =
     (case requests_post w (endpoint self) (JObj (payload_of td)) 30 of
        Inl e \<Rightarrow> Inl e
      | Inr r \<Rightarrow> (case raise_for_status r of Inl e \<Rightarrow> Inl e | Inr u \<Rightarrow> json_body r))"
  by (simp add: send_to_knowledge_agent_def Let_def split: sum.split)

text \<open>
  C4, as the code has it.  For a thread with the fields \<^verbatim>\<open>thread_ts\<close>, \<^verbatim>\<open>channel_id\<close> and
  \<^verbatim>\<open>messages\<close>, \<^verbatim>\<open>send_to_knowledge_agent\<close> makes one POST to the base URL followed by
  \<open>/api/query\<close>, with a timeout of 30 seconds and the body \<^verbatim>\<open>question\<close>, \<^verbatim>\<open>intent\<close>,
  \<^verbatim>\<open>thread_ts\<close>, \<^verbatim>\<open>channel_id\<close>, \<^verbatim>\<open>messages\<close>.  It raises what the POST raises (a network
  failure), it raises an HTTP error on a status from 400 to 599, and on every other
  status it gives what \<^verbatim>\<open>response.json()\<close> gives: the parsed body, or the decoding error.
\<close>

theorem send_to_knowledge_agent_contract:
  "payload_of [(''thread_ts'', ts), (''channel_id'', ch), (''messages'', JArr ms)] =
     [(''question'', JStr ''Ingest this thread''), (''intent'', JStr ''ingest''),
      (''thread_ts'', ts), (''channel_id'', ch), (''messages'', JArr ms)]
   \<and> calls (snd (send_to_knowledge_agent w self
               [(''thread_ts'', ts), (''channel_id'', ch), (''messages'', JArr ms)] st)) =
       calls st @
       [RequestsPost (knowledge_agent_url self @ ''/api/query'')
          (JObj [(''question'', JStr ''Ingest this thread''), (''intent'', JStr ''ingest''),
                 (''thread_ts'', ts), (''channel_id'', ch), (''messages'', JArr ms)]) 30]
   \<and> fst (send_to_knowledge_agent w self
             [(''thread_ts'', ts), (''channel_id'', ch), (''messages'', JArr ms)] st) =
       (case requests_post w (knowledge_agent_url self @ ''/api/query'')
               (JObj [(''question'', JStr ''Ingest this thread''), (''intent'', JStr ''ingest''),
                      (''thread_ts'', ts), (''channel_id'', ch), (''messages'', JArr ms)]) 30 of
          Inl e \<Rightarrow> Inl e
        | Inr r \<Rightarrow>
            if 400 \<le> status_code r \<and> status_code r < 600
            then Inl (RequestException (http_error_msg r))
            else json_body r)"
  by (simp add: send_calls send_result payload_of_thread endpoint_def raise_for_status_def
           split: sum.split)

theorem send_to_knowledge_agent_contract_witness:
  "fst (send_to_knowledge_agent env_agent_down sample_self
          [(''thread_ts'', JStr ''1.0''), (''channel_id'', JStr ''C1''), (''messages'', JArr [])] io0)
     = Inl (RequestException ''Connection refused'')
   \<and> fst (send_to_knowledge_agent env_ok sample_self
          [(''thread_ts'', JStr ''1.0''), (''channel_id'', JStr ''C1''), (''messages'', JArr [])] io0)
     = Inr (JObj [(''memories_added'', JInt 2)])"
  using send_to_knowledge_agent_contract
          [of "JStr ''1.0''" "JStr ''C1''" "[]" env_agent_down sample_self io0]
        send_to_knowledge_agent_contract
          [of "JStr ''1.0''" "JStr ''C1''" "[]" env_ok sample_self io0]
  by (simp add: env_agent_down_def env_ok_def)

text \<open>
  C4 as stated fails: a response with status 304, which is not a 2xx status, does not
  make \<^verbatim>\<open>send_to_knowledge_agent\<close> raise; its parsed body is returned.
\<close>

theorem send_to_knowledge_agent_non_2xx_counterexample:
  "requests_post env_not_modified (endpoint sample_self) (JObj (payload_of sample_thread)) 30
     = Inr not_modified
   \<and> status_code not_modified = 304
   \<and> fst (send_to_knowledge_agent env_not_modified sample_self sample_thread io0)
     = Inr (JObj [])"
  by (simp add: send_result env_not_modified_def not_modified_def raise_for_status_def)

subsection \<open>Posting the confirmation\<close>

text \<open>
  C7, as the code has it.  When \<^verbatim>\<open>chat_postMessage\<close> raises a \<^verbatim>\<open>SlackApiError\<close>,
  \<^verbatim>\<open>post_confirmation\<close> prints its error code and returns normally; an exception of any
  other class is raised to the caller, with nothing printed.
\<close>

theorem post_confirmation_swallows_api_error:
  "(chat_postMessage w channel_id thread_ts
      (check_mark @ '' Thread ingested to knowledge base! Created '' @ py_str w n
       @ '' memories.'') = Inl e \<longrightarrow>
    post_confirmation w self channel_id thread_ts n st =
      (case e of
         SlackApiError m code \<Rightarrow>
           (Inr (),
            do_print (''Error posting confirmation: '' @ code)
              (do_call (ChatPostMessage channel_id thread_ts
                 (check_mark @ '' Thread ingested to knowledge base! Created '' @ py_str w n
                  @ '' memories.'')) st))
       | _ \<Rightarrow>
           (Inl e,
            do_call (ChatPostMessage channel_id thread_ts
              (check_mark @ '' Thread ingested to knowledge base! Created '' @ py_str w n
               @ '' memories.'')) st)))"
  by (cases e) (simp_all add: post_confirmation_def Let_def)

theorem post_confirmation_swallows_api_error_witness:
  "fst (post_confirmation env_chat_api_error sample_self (JStr ''C1'') (JStr ''1.0'') (JInt 2) io0)
     = Inr ()
   \<and> stdout (snd (post_confirmation env_chat_api_error sample_self (JStr ''C1'') (JStr ''1.0'')
                    (JInt 2) io0))
     = [''Error posting confirmation: not_in_channel'']"
proof -
  have c: "chat_postMessage env_chat_api_error (JStr ''C1'') (JStr ''1.0'')
             (check_mark @ '' Thread ingested to knowledge base! Created ''
              @ py_str env_chat_api_error (JInt 2) @ '' memories.'')
           = Inl (SlackApiError ''The request to the Slack API failed.'' ''not_in_channel'')"
    by (simp add: env_chat_api_error_def)
  from post_confirmation_swallows_api_error
         [of env_chat_api_error "JStr ''C1''" "JStr ''1.0''" "JInt 2" _ sample_self io0] c
  show ?thesis by (simp add: do_print_def do_call_def io0_def)
qed

text \<open>
  C7 as stated fails: a failure of the posting call that is not a \<^verbatim>\<open>SlackApiError\<close> is
  raised to the caller of \<^verbatim>\<open>post_confirmation\<close>.
\<close>

theorem post_confirmation_reraises_counterexample:
  "fst (post_confirmation env_chat_unreachable sample_self (JStr ''C1'') (JStr ''1.0'') (JInt 2) io0)
     = Inl (OtherException ''urlopen error: connection refused'')"
  by (simp add: post_confirmation_def Let_def env_chat_unreachable_def)

subsection \<open>The events endpoint: URL verification\<close>

text \<open>
  C5.  When the JSON body of an events request has a \<^verbatim>\<open>challenge\<close> field with value \<open>x\<close>,
  the handler answers \<^verbatim>\<open>{challenge: x}\<close> with status 200 and leaves the effect log as it
  was: no fetch, no forward, no confirmation and no output, whatever else the body
  holds (an \<^verbatim>\<open>event\<close> field included).
\<close>

theorem slack_events_challenge_echo:
  "map_of d ''challenge'' = Some x \<Longrightarrow>
   slack_events w self (JObj d) st = (Inr (JObj [(''challenge'', x)], 200), st)"
  by (simp add: slack_events_def)

theorem slack_events_challenge_echo_witness:
  "map_of [(''challenge'', JStr ''X''), (''event'', JObj mention_event)] ''event''
     = Some (JObj mention_event)
   \<and> slack_events env_ok sample_self challenge_body io0
     = (Inr (JObj [(''challenge'', JStr ''X'')], 200), io0)"
proof -
  have "map_of [(''challenge'', JStr ''X''), (''event'', JObj mention_event)] ''challenge''
          = Some (JStr ''X'')"
    by simp
  from slack_events_challenge_echo [OF this, of env_ok sample_self io0]
  show ?thesis by (simp add: challenge_body_def)
qed

subsection \<open>The shortcuts endpoint: requests that do not start the pipeline\<close>

text \<open>
  C6.  When the form of a shortcuts request has no \<^verbatim>\<open>payload\<close> field, or an empty one, the
  handler answers status 400 with the body \<^verbatim>\<open>{error: "No payload"}\<close> and leaves the effect
  log as it was: no fetch and no forward.
\<close>

theorem slack_shortcuts_no_payload:
  "payload = None \<or> payload = Some [] \<Longrightarrow>
   slack_shortcuts w self payload st = (Inr (JObj [(''error'', JStr ''No payload'')], 400), st)"
  by (auto simp: slack_shortcuts_def)

theorem slack_shortcuts_no_payload_witness:
  "slack_shortcuts env_ok sample_self None io0
     = (Inr (JObj [(''error'', JStr ''No payload'')], 400), io0)
   \<and> slack_shortcuts env_ok sample_self (Some []) io0
     = (Inr (JObj [(''error'', JStr ''No payload'')], 400), io0)"
  using slack_shortcuts_no_payload [of None env_ok sample_self io0]
        slack_shortcuts_no_payload [of "Some []" env_ok sample_self io0]
  by simp

text \<open>
  C8.  When the payload of a shortcuts request parses to an object of type \<^verbatim>\<open>shortcut\<close>
  that has no \<^verbatim>\<open>channel\<close> key, or whose \<^verbatim>\<open>channel\<close> object has no \<^verbatim>\<open>id\<close> key, the handler
  lets a \<^verbatim>\<open>KeyError\<close> for that key escape.  The effect log is as it was, so the pipeline of
  the \<^verbatim>\<open>try\<close> block was not started, and no response (the 500 with an error text
  included) is produced.
\<close>

theorem slack_shortcuts_missing_channel:
  assumes "p \<noteq> []"
    and "json_loads w p = Inr (JObj d)"
    and "map_of d ''type'' = Some (JStr ''shortcut'')"
    and "map_of d ''channel'' = None
         \<or> (\<exists>c. map_of d ''channel'' = Some (JObj c) \<and> map_of c ''id'' = None)"
  shows "slack_shortcuts w self (Some p) st =
           (Inl (KeyError (if map_of d ''channel'' = None then ''channel'' else ''id'')), st)"
  using assms by (auto simp: slack_shortcuts_def shortcuts_shortcut_def)

theorem slack_shortcuts_missing_channel_witness:
  "slack_shortcuts env_ok sample_self (Some shortcut_no_channel_text) io0
     = (Inl (KeyError ''channel''), io0)
   \<and> slack_shortcuts env_ok sample_self (Some shortcut_no_id_text) io0
     = (Inl (KeyError ''id''), io0)"
proof -
  let ?d = "[(''type'', JStr ''shortcut''), (''message'', JObj [(''ts'', JStr ''1.0'')])]"
  let ?d' = "[(''type'', JStr ''shortcut''), (''channel'', JObj []),
              (''message'', JObj [(''ts'', JStr ''1.0'')])]"
  have c1: "shortcut_no_channel_text \<noteq> []"
    by (simp add: shortcut_no_channel_text_def)
  have c2: "json_loads env_ok shortcut_no_channel_text = Inr (JObj ?d)"
    by (simp add: env_ok_def sample_loads_def shortcut_no_channel_text_def shortcut_text_def)
  have c3: "map_of ?d ''type'' = Some (JStr ''shortcut'')"
    by simp
  have c4: "map_of ?d ''channel'' = None
           \<or> (\<exists>c. map_of ?d ''channel'' = Some (JObj c) \<and> map_of c ''id'' = None)"
    by simp
  have n1: "shortcut_no_id_text \<noteq> []"
    by (simp add: shortcut_no_id_text_def)
  have n2: "json_loads env_ok shortcut_no_id_text = Inr (JObj ?d')"
    by (simp add: env_ok_def sample_loads_def shortcut_no_id_text_def shortcut_text_def
                  shortcut_no_channel_text_def block_actions_text_def)
  have n3: "map_of ?d' ''type'' = Some (JStr ''shortcut'')"
    by simp
  have n4: "map_of ?d' ''channel'' = None
           \<or> (\<exists>c. map_of ?d' ''channel'' = Some (JObj c) \<and> map_of c ''id'' = None)"
    by simp
  from slack_shortcuts_missing_channel [OF c1 c2 c3 c4, of sample_self io0]
       slack_shortcuts_missing_channel [OF n1 n2 n3 n4, of sample_self io0]
  show ?thesis by simp
qed

text \<open>
  C9.  When the payload of a shortcuts request is not empty and parses to an object whose
  \<^verbatim>\<open>type\<close> is not \<^verbatim>\<open>shortcut\<close>, the handler answers status 200 with the body
  \<^verbatim>\<open>{status: "ok"}\<close> and leaves the effect log as it was.  That body has neither an
  \<^verbatim>\<open>error\<close> nor a \<^verbatim>\<open>text\<close> field.
\<close>

theorem slack_shortcuts_other_type:
  assumes "p \<noteq> []"
    and "json_loads w p = Inr (JObj d)"
    and "map_of d ''type'' \<noteq> Some (JStr ''shortcut'')"
  shows "\<exists>body. slack_shortcuts w self (Some p) st = (Inr (JObj body, 200), st)
           \<and> body = [(''status'', JStr ''ok'')]
           \<and> map_of body ''error'' = None \<and> map_of body ''text'' = None"
  using assms
  by (auto simp: slack_shortcuts_def status_ok_def split: option.splits)

theorem slack_shortcuts_other_type_witness:
  "\<exists>body. slack_shortcuts env_ok sample_self (Some block_actions_text) io0
             = (Inr (JObj body, 200), io0)
        \<and> body = [(''status'', JStr ''ok'')]"
proof -
  have 1: "block_actions_text \<noteq> []"
    by (simp add: block_actions_text_def)
  have 2: "json_loads env_ok block_actions_text = Inr (JObj [(''type'', JStr ''block_actions'')])"
    by (simp add: env_ok_def sample_loads_def block_actions_text_def shortcut_text_def
                  shortcut_no_channel_text_def)
  have 3: "map_of [(''type'', JStr ''block_actions'')] ''type'' \<noteq> Some (JStr ''shortcut'')"
    by simp
  from slack_shortcuts_other_type [OF 1 2 3, of sample_self io0]
  show ?thesis by blast
qed

subsection \<open>The pipeline\<close>

lemma fetch_thread_fst:
  "fst (fetch_thread w self ch ts st) =
     (case conversations_replies w ch ts of
        Inl e \<Rightarrow> Inl e
      | Inr raw \<Rightarrow>
          (case messages_loop [] raw of
             Inl e \<Rightarrow> Inl e
           | Inr ms \<Rightarrow> Inr [(''thread_ts'', ts), (''channel_id'', ch), (''messages'', JArr ms)]))"
  by (simp add: fetch_thread_def Let_def split: sum.split)

lemma fetch_thread_calls:
  "calls (snd (fetch_thread w self ch ts st)) = calls st @ [ConversationsReplies ch ts True]"
  by (simp add: fetch_thread_def Let_def calls_on_slack_error calls_do_call split: sum.split)

lemma send_fst_io: "fst (send_to_knowledge_agent w self td s) = fst (send_to_knowledge_agent w self td s')"
  by (simp add: send_result)

lemma ingest_thread_calls:
  "calls (snd (ingest_thread w self ch ts st)) =
     calls st @ ConversationsReplies ch ts True #
       (case conversations_replies w ch ts of
          Inl e \<Rightarrow> []
        | Inr raw \<Rightarrow>
            (case messages_loop [] raw of
               Inl e \<Rightarrow> []
             | Inr ms \<Rightarrow>
                 [RequestsPost (endpoint self)
                    (JObj (payload_of [(''thread_ts'', ts), (''channel_id'', ch),
                                       (''messages'', JArr ms)])) 30]))"
proof (cases "conversations_replies w ch ts")
  case (Inl e)
  then show ?thesis
    by (simp add: ingest_thread_def fetch_thread_def Let_def calls_on_slack_error calls_do_call
                  calls_do_print)
next
  case (Inr raw)
  show ?thesis
  proof (cases "messages_loop [] raw")
    case (Inl e)
    with Inr show ?thesis
      by (simp add: ingest_thread_def fetch_thread_def Let_def calls_on_slack_error calls_do_call
                    calls_do_print)
  next
    case ms: (Inr ms)
    with Inr show ?thesis
      by (simp add: ingest_thread_def fetch_thread_def Let_def case_prod_beta send_calls
                    calls_do_call calls_do_print split: sum.split)
  qed
qed

lemma ingest_thread_send_error:
  assumes "conversations_replies w ch ts = Inr raw"
    and "messages_loop [] raw = Inr ms"
    and "fst (send_to_knowledge_agent w self
                [(''thread_ts'', ts), (''channel_id'', ch), (''messages'', JArr ms)] s) = Inl e"
  shows "fst (ingest_thread w self ch ts st) = Inl e"
proof -
  let ?td = "[(''thread_ts'', ts), (''channel_id'', ch), (''messages'', JArr ms)]"
  let ?s = "do_print (''Sending '' @ py_str w (JInt (int (length ms)))
                      @ '' messages to Knowledge Agent...'')
              (do_call (ConversationsReplies ch ts True)
                 (do_print (''Fetching thread '' @ py_str w ts @ '' from channel ''
                            @ py_str w ch @ ''...'') st))"
  from assms(3) have "fst (send_to_knowledge_agent w self ?td ?s) = Inl e"
    using send_fst_io [of w self ?td s ?s] by simp
  with assms(1,2) show ?thesis
    by (simp add: ingest_thread_def fetch_thread_def Let_def case_prod_beta)
qed

subsection \<open>The two \<^verbatim>\<open>try\<close> blocks\<close>

lemma events_try_fst:
  "fst (events_try w self ch ts st) = Inr (JObj [(''status'', JStr ''ok'')], 200)"
  by (simp add: events_try_def status_ok_def case_prod_beta split: sum.split)

lemma events_try_calls:
  "\<exists>conf. calls (snd (events_try w self ch ts st)) = calls (snd (ingest_thread w self ch ts st)) @ conf
      \<and> filter is_fetch conf = [] \<and> filter is_forward conf = []"
  by (simp add: events_try_def status_ok_def case_prod_beta post_confirmation_def Let_def
                calls_do_print calls_do_call split: sum.split exn.split)

lemma shortcuts_try_error:
  "fst (ingest_thread w self ch ts st) = Inl e \<Longrightarrow>
   fst (shortcuts_try w self ch ts st) =
     Inr (JObj [(''text'', JStr (cross_mark @ '' Error: '' @ str_exn e))], 500)"
  by (simp add: shortcuts_try_def case_prod_beta)

subsection \<open>The events endpoint: a mention that asks for ingestion\<close>

lemma events_mention_runs_try:
  assumes "map_of d ''challenge'' = None"
    and "map_of d ''event'' = Some (JObj ev)"
    and "map_of ev ''type'' = Some (JStr ''app_mention'')"
    and "map_of ev ''text'' = Some (JStr t)"
    and "str_contains (map lower_char t) ''ingest'' \<or> str_contains (map lower_char t) ''save''"
    and "dict_get (JObj ev) ''channel'' JNull = Inr channel"
    and "dict_get (JObj ev) ''thread_ts'' JNull = Inr a"
    and "dict_get (JObj ev) ''ts'' JNull = Inr b"
  shows "slack_events w self (JObj d) st = events_try w self channel (py_or a b) st"
  using assms by (auto simp: slack_events_def events_event_def)

text \<open>
  C2, as the code has it.  Take an events request whose body has no \<^verbatim>\<open>challenge\<close> field and
  an \<^verbatim>\<open>event\<close> object of type \<^verbatim>\<open>app_mention\<close> whose text, lowercased, contains \<^verbatim>\<open>ingest\<close> or
  \<^verbatim>\<open>save\<close>.  The handler makes exactly one fetch call, with the event's \<^verbatim>\<open>channel\<close> and with
  the event's \<^verbatim>\<open>thread_ts\<close> when that is truthy and its \<^verbatim>\<open>ts\<close> otherwise (in particular when
  \<^verbatim>\<open>thread_ts\<close> is absent).  When the fetch returns a list of message objects, the handler
  makes exactly one forward call, whose body carries the same channel and thread
  timestamp; when the fetch raises, it makes no forward call.
\<close>

theorem slack_events_mention_calls:
  assumes "map_of d ''challenge'' = None"
    and "map_of d ''event'' = Some (JObj ev)"
    and "map_of ev ''type'' = Some (JStr ''app_mention'')"
    and "map_of ev ''text'' = Some (JStr t)"
    and "str_contains (map lower_char t) ''ingest'' \<or> str_contains (map lower_char t) ''save''"
    and "dict_get (JObj ev) ''channel'' JNull = Inr channel"
    and "dict_get (JObj ev) ''thread_ts'' JNull = Inr a"
    and "dict_get (JObj ev) ''ts'' JNull = Inr b"
  shows "\<exists>new. calls (snd (slack_events w self (JObj d) st)) = calls st @ new
           \<and> filter is_fetch new = [ConversationsReplies channel (py_or a b) True]
           \<and> (truthy a \<longrightarrow> py_or a b = a)
           \<and> (map_of ev ''thread_ts'' = None \<longrightarrow> py_or a b = b)
           \<and> (\<forall>raw. conversations_replies w channel (py_or a b) = Inr raw
                     \<and> (\<forall>m\<in>set raw. \<exists>x. m = JObj x) \<longrightarrow>
                 (\<exists>ms. length ms = length raw
                    \<and> filter is_forward new =
                        [RequestsPost (endpoint self)
                           (JObj [(''question'', JStr ''Ingest this thread''),
                                  (''intent'', JStr ''ingest''),
                                  (''thread_ts'', py_or a b),
                                  (''channel_id'', channel),
                                  (''messages'', JArr ms)]) 30]))
           \<and> (\<forall>e. conversations_replies w channel (py_or a b) = Inl e \<longrightarrow>
                 filter is_forward new = [])"
proof -
  let ?ts = "py_or a b"
  let ?pipeline =
    "ConversationsReplies channel ?ts True #
       (case conversations_replies w channel ?ts of
          Inl e \<Rightarrow> []
        | Inr raw \<Rightarrow>
            (case messages_loop [] raw of
               Inl e \<Rightarrow> []
             | Inr ms \<Rightarrow>
                 [RequestsPost (endpoint self)
                    (JObj (payload_of [(''thread_ts'', ?ts), (''channel_id'', channel),
                                       (''messages'', JArr ms)])) 30]))"
  have ev: "slack_events w self (JObj d) st = events_try w self channel ?ts st"
    using assms by (rule events_mention_runs_try)
  obtain conf where
    c: "calls (snd (events_try w self channel ?ts st)) =
          calls (snd (ingest_thread w self channel ?ts st)) @ conf"
    and nf: "filter is_fetch conf = []" and nw: "filter is_forward conf = []"
    using events_try_calls [of w self channel ?ts st] by blast
  have all: "calls (snd (slack_events w self (JObj d) st)) = calls st @ (?pipeline @ conf)"
    by (simp add: ev c ingest_thread_calls)
  have fetch: "filter is_fetch (?pipeline @ conf) = [ConversationsReplies channel ?ts True]"
    by (simp add: nf split: sum.split)
  have absent: "map_of ev ''thread_ts'' = None \<longrightarrow> py_or a b = b"
    using assms(7) by (auto simp: py_or_def)
  have ok: "\<forall>raw. conversations_replies w channel ?ts = Inr raw
                     \<and> (\<forall>m\<in>set raw. \<exists>x. m = JObj x) \<longrightarrow>
                 (\<exists>ms. length ms = length raw
                    \<and> filter is_forward (?pipeline @ conf) =
                        [RequestsPost (endpoint self)
                           (JObj [(''question'', JStr ''Ingest this thread''),
                                  (''intent'', JStr ''ingest''),
                                  (''thread_ts'', ?ts),
                                  (''channel_id'', channel),
                                  (''messages'', JArr ms)]) 30])"
  proof (intro allI impI)
    fix raw
    assume h: "conversations_replies w channel ?ts = Inr raw \<and> (\<forall>m\<in>set raw. \<exists>x. m = JObj x)"
    then have "messages_loop [] raw = Inr ([] @ map (\<lambda>m. projr (message_of m)) raw)"
      using messages_loop_objs [of raw "[]"] by blast
    with h have "filter is_forward (?pipeline @ conf) =
                        [RequestsPost (endpoint self)
                           (JObj [(''question'', JStr ''Ingest this thread''),
                                  (''intent'', JStr ''ingest''),
                                  (''thread_ts'', ?ts),
                                  (''channel_id'', channel),
                                  (''messages'', JArr (map (\<lambda>m. projr (message_of m)) raw))]) 30]"
      by (simp add: nw payload_of_thread)
    moreover have "length (map (\<lambda>m. projr (message_of m)) raw) = length raw" by simp
    ultimately show "\<exists>ms. length ms = length raw
                    \<and> filter is_forward (?pipeline @ conf) =
                        [RequestsPost (endpoint self)
                           (JObj [(''question'', JStr ''Ingest this thread''),
                                  (''intent'', JStr ''ingest''),
                                  (''thread_ts'', ?ts),
                                  (''channel_id'', channel),
                                  (''messages'', JArr ms)]) 30]"
      by blast
  qed
  have err: "\<forall>e. conversations_replies w channel ?ts = Inl e \<longrightarrow>
                 filter is_forward (?pipeline @ conf) = []"
    by (simp add: nw)
  have t: "truthy a \<longrightarrow> py_or a b = a"
    by (simp add: py_or_def)
  show ?thesis
    by (rule exI [of _ "?pipeline @ conf"]) (intro conjI all fetch t absent ok err)
qed


theorem slack_events_mention_calls_witness:
  "\<exists>new. calls (snd (slack_events env_ok sample_self mention_body io0)) = new
      \<and> filter is_fetch new = [ConversationsReplies (JStr ''C1'') (JStr ''1.0'') True]
      \<and> (\<exists>ms. length ms = 2
            \<and> filter is_forward new =
                [RequestsPost ''http://localhost:8081/api/query''
                   (JObj [(''question'', JStr ''Ingest this thread''),
                          (''intent'', JStr ''ingest''),
                          (''thread_ts'', JStr ''1.0''),
                          (''channel_id'', JStr ''C1''),
                          (''messages'', JArr ms)]) 30])"
proof -
  have 1: "map_of [(''event'', JObj mention_event)] ''challenge'' = None" by simp
  have 2: "map_of [(''event'', JObj mention_event)] ''event'' = Some (JObj mention_event)" by simp
  have 3: "map_of mention_event ''type'' = Some (JStr ''app_mention'')"
    by (simp add: mention_event_def)
  have 4: "map_of mention_event ''text'' = Some (JStr ''Please INGEST this'')"
    by (simp add: mention_event_def)
  have 5: "str_contains (map lower_char ''Please INGEST this'') ''ingest''
           \<or> str_contains (map lower_char ''Please INGEST this'') ''save''"
    by (simp add: lower_char_def)
  have 6: "dict_get (JObj mention_event) ''channel'' JNull = Inr (JStr ''C1'')"
    by (simp add: mention_event_def)
  have 7: "dict_get (JObj mention_event) ''thread_ts'' JNull = Inr JNull"
    by (simp add: mention_event_def)
  have 8: "dict_get (JObj mention_event) ''ts'' JNull = Inr (JStr ''1.0'')"
    by (simp add: mention_event_def)
  have ts: "py_or JNull (JStr ''1.0'') = JStr ''1.0''"
    by (simp add: py_or_def)
  have ep: "endpoint sample_self = ''http://localhost:8081/api/query''"
    by (simp add: endpoint_def sample_self_def init_def rstrip_def)
  have raw: "conversations_replies env_ok (JStr ''C1'') (JStr ''1.0'') = Inr sample_raw
             \<and> (\<forall>m\<in>set sample_raw. \<exists>x. m = JObj x)"
    by (simp add: env_ok_def sample_raw_def)
  have len: "length sample_raw = 2"
    by (simp add: sample_raw_def)
  have c0: "calls io0 = []"
    by (simp add: io0_def)
  from slack_events_mention_calls [OF 1 2 3 4 5 6 7 8, of env_ok sample_self io0]
  obtain new where
    n: "calls (snd (slack_events env_ok sample_self (JObj [(''event'', JObj mention_event)]) io0))
          = calls io0 @ new"
    and f: "filter is_fetch new
          = [ConversationsReplies (JStr ''C1'') (py_or JNull (JStr ''1.0'')) True]"
    and g: "\<forall>raw. conversations_replies env_ok (JStr ''C1'') (py_or JNull (JStr ''1.0'')) = Inr raw
                     \<and> (\<forall>m\<in>set raw. \<exists>x. m = JObj x) \<longrightarrow>
                 (\<exists>ms. length ms = length raw
                    \<and> filter is_forward new =
                        [RequestsPost (endpoint sample_self)
                           (JObj [(''question'', JStr ''Ingest this thread''),
                                  (''intent'', JStr ''ingest''),
                                  (''thread_ts'', py_or JNull (JStr ''1.0'')),
                                  (''channel_id'', JStr ''C1''),
                                  (''messages'', JArr ms)]) 30])"
    by blast
  from g raw obtain ms where
    l: "length ms = length sample_raw"
    and w: "filter is_forward new =
              [RequestsPost (endpoint sample_self)
                 (JObj [(''question'', JStr ''Ingest this thread''),
                        (''intent'', JStr ''ingest''),
                        (''thread_ts'', py_or JNull (JStr ''1.0'')),
                        (''channel_id'', JStr ''C1''),
                        (''messages'', JArr ms)]) 30]"
    unfolding ts by blast
  from n have n': "calls (snd (slack_events env_ok sample_self mention_body io0)) = new"
    by (simp add: c0 mention_body_def)
  from f have f': "filter is_fetch new = [ConversationsReplies (JStr ''C1'') (JStr ''1.0'') True]"
    by (simp only: ts)
  from w have w': "filter is_forward new =
              [RequestsPost ''http://localhost:8081/api/query''
                 (JObj [(''question'', JStr ''Ingest this thread''),
                        (''intent'', JStr ''ingest''),
                        (''thread_ts'', JStr ''1.0''),
                        (''channel_id'', JStr ''C1''),
                        (''messages'', JArr ms)]) 30]"
    by (simp only: ts ep)
  from l len have l': "length ms = 2" by simp
  from n' f' l' w' show ?thesis by blast
qed

text \<open>
  C2 as stated fails: when Slack refuses the read, the same request leads to one fetch
  call and to no forward call.
\<close>

theorem slack_events_no_forward_counterexample:
  "dict_get (JObj mention_event) ''type'' JNull = Inr (JStr ''app_mention'')
   \<and> py_lower (JStr ''Please INGEST this'') = Inr ''please ingest this''
   \<and> str_contains ''please ingest this'' ''ingest''
   \<and> filter is_fetch (calls (snd (slack_events env_slack_error sample_self mention_body io0)))
       = [ConversationsReplies (JStr ''C1'') (JStr ''1.0'') True]
   \<and> filter is_forward (calls (snd (slack_events env_slack_error sample_self mention_body io0)))
       = []"
  by (simp add: slack_events_def events_event_def events_try_def ingest_thread_def
                fetch_thread_def env_slack_error_def env_ok_def mention_body_def
                mention_event_def lower_char_def py_or_def do_print_def do_call_def io0_def
                status_ok_def Let_def)

text \<open>
  The fallback to \<^verbatim>\<open>ts\<close> is Python's \<^verbatim>\<open>or\<close>: it is taken for an absent \<^verbatim>\<open>thread_ts\<close> and also for
  one that is present and falsy, such as \<^verbatim>\<open>null\<close> or the empty string.
\<close>

lemma py_or_falsy_thread_ts:
  "py_or JNull (JStr ''1.0'') = JStr ''1.0'' \<and> py_or (JStr []) (JStr ''1.0'') = JStr ''1.0''
   \<and> py_or (JStr ''0.5'') (JStr ''1.0'') = JStr ''0.5''"
  by (simp add: py_or_def)

subsection \<open>A failing Knowledge Agent, seen from the two endpoints\<close>

lemma is_prefix_refl: "is_prefix s s"
  by (induction s) simp_all

lemma str_contains_self: "str_contains s s"
  by (cases s) (simp_all add: is_prefix_refl)

lemma str_contains_append: "str_contains (p @ s) s"
  by (induction p) (simp_all add: str_contains_self)

lemma shortcuts_runs_try:
  assumes "p \<noteq> []"
    and "json_loads w p = Inr (JObj d)"
    and "map_of d ''type'' = Some (JStr ''shortcut'')"
    and "dict_get (JObj d) ''message'' (JObj []) = Inr (JObj m)"
    and "map_of d ''channel'' = Some (JObj c)"
    and "map_of c ''id'' = Some channel"
    and "dict_get (JObj m) ''thread_ts'' JNull = Inr a"
    and "dict_get (JObj m) ''ts'' JNull = Inr b"
  shows "slack_shortcuts w self (Some p) st = shortcuts_try w self channel (py_or a b) st"
  using assms by (auto simp: slack_shortcuts_def shortcuts_shortcut_def)

text \<open>
  C3.  Take a shortcuts request that reaches the pipeline (a payload of type \<^verbatim>\<open>shortcut\<close>
  with a channel id and a message object) and for which the fetch succeeds and
  \<^verbatim>\<open>send_to_knowledge_agent\<close> raises \<open>e\<close>: the handler answers status 500 with a body whose
  \<^verbatim>\<open>text\<close> field is an error mark followed by \<^verbatim>\<open>str(e)\<close>, so it contains that message.  An
  events request with an \<^verbatim>\<open>app_mention\<close> event that asks for ingestion is answered with
  status 200 and \<^verbatim>\<open>{status: "ok"}\<close> in every environment, hence whether or not the pipeline
  raised.
\<close>

theorem agent_failure_responses:
  "(p \<noteq> [] \<and> json_loads w p = Inr (JObj d)
      \<and> map_of d ''type'' = Some (JStr ''shortcut'')
      \<and> dict_get (JObj d) ''message'' (JObj []) = Inr (JObj m)
      \<and> map_of d ''channel'' = Some (JObj c) \<and> map_of c ''id'' = Some channel
      \<and> dict_get (JObj m) ''thread_ts'' JNull = Inr a
      \<and> dict_get (JObj m) ''ts'' JNull = Inr b
      \<and> conversations_replies w channel (py_or a b) = Inr raw
      \<and> messages_loop [] raw = Inr ms
      \<and> fst (send_to_knowledge_agent w self
                [(''thread_ts'', py_or a b), (''channel_id'', channel), (''messages'', JArr ms)] s)
          = Inl e
    \<longrightarrow> fst (slack_shortcuts w self (Some p) st)
          = Inr (JObj [(''text'', JStr (cross_mark @ '' Error: '' @ str_exn e))], 500)
        \<and> str_contains (cross_mark @ '' Error: '' @ str_exn e) (str_exn e))
   \<and> (map_of body ''challenge'' = None \<and> map_of body ''event'' = Some (JObj ev)
      \<and> map_of ev ''type'' = Some (JStr ''app_mention'')
      \<and> map_of ev ''text'' = Some (JStr t)
      \<and> (str_contains (map lower_char t) ''ingest'' \<or> str_contains (map lower_char t) ''save'')
    \<longrightarrow> fst (slack_events w self (JObj body) st')
          = Inr (JObj [(''status'', JStr ''ok'')], 200))"
proof (intro conjI impI; (elim conjE)?)
  assume "p \<noteq> []"
    and "json_loads w p = Inr (JObj d)"
    and "map_of d ''type'' = Some (JStr ''shortcut'')"
    and "dict_get (JObj d) ''message'' (JObj []) = Inr (JObj m)"
    and "map_of d ''channel'' = Some (JObj c)"
    and "map_of c ''id'' = Some channel"
    and "dict_get (JObj m) ''thread_ts'' JNull = Inr a"
    and "dict_get (JObj m) ''ts'' JNull = Inr b"
  then have sc: "slack_shortcuts w self (Some p) st = shortcuts_try w self channel (py_or a b) st"
    by (rule shortcuts_runs_try)
  assume "conversations_replies w channel (py_or a b) = Inr raw"
    and "messages_loop [] raw = Inr ms"
    and "fst (send_to_knowledge_agent w self
                [(''thread_ts'', py_or a b), (''channel_id'', channel), (''messages'', JArr ms)] s)
          = Inl e"
  then have "fst (ingest_thread w self channel (py_or a b) st) = Inl e"
    by (rule ingest_thread_send_error)
  with sc show "fst (slack_shortcuts w self (Some p) st)
          = Inr (JObj [(''text'', JStr (cross_mark @ '' Error: '' @ str_exn e))], 500)"
    by (simp add: shortcuts_try_error)
next
  show "str_contains (cross_mark @ '' Error: '' @ str_exn e) (str_exn e)"
    using str_contains_append [of "cross_mark @ '' Error: ''" "str_exn e"] by simp
next
  assume "map_of body ''challenge'' = None"
    and "map_of body ''event'' = Some (JObj ev)"
    and "map_of ev ''type'' = Some (JStr ''app_mention'')"
    and "map_of ev ''text'' = Some (JStr t)"
    and "str_contains (map lower_char t) ''ingest'' \<or> str_contains (map lower_char t) ''save''"
  then have "slack_events w self (JObj body) st' =
          events_try w self (case map_of ev ''channel'' of None \<Rightarrow> JNull | Some v \<Rightarrow> v)
            (py_or (case map_of ev ''thread_ts'' of None \<Rightarrow> JNull | Some v \<Rightarrow> v)
                   (case map_of ev ''ts'' of None \<Rightarrow> JNull | Some v \<Rightarrow> v)) st'"
    by (rule events_mention_runs_try) simp_all
  then show "fst (slack_events w self (JObj body) st') = Inr (JObj [(''status'', JStr ''ok'')], 200)"
    by (simp add: events_try_fst)
qed

theorem agent_failure_responses_witness:
  "fst (slack_shortcuts env_agent_down sample_self (Some shortcut_text) io0)
     = Inr (JObj [(''text'', JStr (cross_mark @ '' Error: Connection refused''))], 500)
   \<and> fst (slack_events env_agent_down sample_self mention_body io0)
     = Inr (JObj [(''status'', JStr ''ok'')], 200)"
proof -
  let ?d = "[(''type'', JStr ''shortcut''), (''channel'', JObj [(''id'', JStr ''C1'')]),
             (''message'', JObj [(''ts'', JStr ''1.0'')])]"
  let ?ms = "map (\<lambda>m. projr (message_of m)) sample_raw"
  have ts: "py_or JNull (JStr ''1.0'') = JStr ''1.0''"
    by (simp add: py_or_def)
  have loop: "messages_loop [] sample_raw = Inr ?ms"
    using messages_loop_objs [of sample_raw "[]"] by (simp add: sample_raw_def)
  have a: "shortcut_text \<noteq> [] \<and> json_loads env_agent_down shortcut_text = Inr (JObj ?d)
      \<and> map_of ?d ''type'' = Some (JStr ''shortcut'')
      \<and> dict_get (JObj ?d) ''message'' (JObj []) = Inr (JObj [(''ts'', JStr ''1.0'')])
      \<and> map_of ?d ''channel'' = Some (JObj [(''id'', JStr ''C1'')])
      \<and> map_of [(''id'', JStr ''C1'')] ''id'' = Some (JStr ''C1'')
      \<and> dict_get (JObj [(''ts'', JStr ''1.0'')]) ''thread_ts'' JNull = Inr JNull
      \<and> dict_get (JObj [(''ts'', JStr ''1.0'')]) ''ts'' JNull = Inr (JStr ''1.0'')
      \<and> conversations_replies env_agent_down (JStr ''C1'') (py_or JNull (JStr ''1.0''))
          = Inr sample_raw
      \<and> messages_loop [] sample_raw = Inr ?ms
      \<and> fst (send_to_knowledge_agent env_agent_down sample_self
                [(''thread_ts'', py_or JNull (JStr ''1.0'')), (''channel_id'', JStr ''C1''),
                 (''messages'', JArr ?ms)] io0)
          = Inl (RequestException ''Connection refused'')"
    by (simp add: loop send_result shortcut_text_def env_agent_down_def env_ok_def
                  sample_loads_def)
  have b: "map_of [(''event'', JObj mention_event)] ''challenge'' = None
      \<and> map_of [(''event'', JObj mention_event)] ''event'' = Some (JObj mention_event)
      \<and> map_of mention_event ''type'' = Some (JStr ''app_mention'')
      \<and> map_of mention_event ''text'' = Some (JStr ''Please INGEST this'')
      \<and> (str_contains (map lower_char ''Please INGEST this'') ''ingest''
         \<or> str_contains (map lower_char ''Please INGEST this'') ''save'')"
    by (simp add: mention_event_def lower_char_def)
  note t = agent_failure_responses
         [of shortcut_text env_agent_down ?d "[(''ts'', JStr ''1.0'')]" "[(''id'', JStr ''C1'')]"
             "JStr ''C1''" JNull "JStr ''1.0''" sample_raw ?ms sample_self io0
             "RequestException ''Connection refused''" io0
             "[(''event'', JObj mention_event)]" mention_event "''Please INGEST this''" io0]
  have x: "fst (slack_shortcuts env_agent_down sample_self (Some shortcut_text) io0)
             = Inr (JObj [(''text'', JStr (cross_mark @ '' Error: ''
                           @ str_exn (RequestException ''Connection refused'')))], 500)"
    by (rule t [THEN conjunct1, THEN mp, OF a, THEN conjunct1])
  have y: "fst (slack_events env_agent_down sample_self (JObj [(''event'', JObj mention_event)]) io0)
             = Inr (JObj [(''status'', JStr ''ok'')], 200)"
    by (rule t [THEN conjunct2, THEN mp, OF b])
  from x have x': "fst (slack_shortcuts env_agent_down sample_self (Some shortcut_text) io0)
     = Inr (JObj [(''text'', JStr (cross_mark @ '' Error: Connection refused''))], 500)"
    by simp
  from y have y': "fst (slack_events env_agent_down sample_self mention_body io0)
     = Inr (JObj [(''status'', JStr ''ok'')], 200)"
    by (simp only: mention_body_def)
  from x' y' show ?thesis by (rule conjI)
qed

end
